theory Spec2Isabelle
  imports Complex_Main "HOL-Library.Word"
begin

section \<open>The audio visualiser of window.c (jack input, FFTW analysis)\<close>

text \<open>
  The development follows \<^verbatim>\<open>samples/samples_demoHelper/11_jack_audio/window.c\<close>.
  The file has one interesting function, \<^verbatim>\<open>mixCallback\<close>, which jack calls with
  \<^verbatim>\<open>nframes\<close> new frames; it updates the global arrays \<^verbatim>\<open>_samples\<close> and
  \<^verbatim>\<open>_hauteurs\<close>. \<^verbatim>\<open>draw\<close> reads them and plots one pixel per entry.

  Conventions of the model.
  \<^item> The globals are the fields of a record that every function takes and returns.
  \<^item> A C array is a list; \<^verbatim>\<open>a[i] = v\<close> is \<open>a[i := v]\<close>. All index expressions of
    the source stay inside the arrays when the jack buffer holds \<^verbatim>\<open>nframes\<close> frames,
    which the theorems assume through \<open>length buffer = nframes\<close>.
  \<^item> A \<^verbatim>\<open>for\<close> loop over an index range is a \<open>fold\<close> of its body over that range.
  \<^item> \<^verbatim>\<open>jack_nframes_t\<close> is an unsigned 32-bit count. The source only compares it
    with 4096 and, in the branch where it is at most 4096, subtracts it from indices that
    are not smaller; no operation can wrap, so it is a \<open>nat\<close>.
  \<^item> \<^verbatim>\<open>float\<close> and \<^verbatim>\<open>double\<close> values are the real numbers they denote and their
    arithmetic is exact real arithmetic: rounding, infinities and NaN are not modelled. At
    a rounding boundary the source can therefore differ from the model by one unit in a
    truncated result (the sample \<open>1 - 1 / 2 ^ 24\<close> is plotted at row 512 by the source's
    \<^verbatim>\<open>float\<close> arithmetic and at row 511 here). No equality between a bin or a row and an
    exact real formula is claimed for arbitrary inputs: what is proved is either a bound
    with a margin far wider than the rounding error, or a value at an input (0, 1/8, 1,
    10) on which every floating-point operation is exact.
  \<^item> \<^verbatim>\<open>Sint16\<close> is \<open>16 word\<close>, read back with \<open>sint\<close>.
\<close>

subsection \<open>Constants and global state\<close>

text \<open>\<^verbatim>\<open>#define ECHANTILLONS 4096\<close> and \<^verbatim>\<open>#define FREQUENCES (ECHANTILLONS >> 2)\<close>.\<close>

definition ECHANTILLONS :: nat where
  "ECHANTILLONS = 4096"

definition FREQUENCES :: nat where
  "FREQUENCES = drop_bit 2 ECHANTILLONS"

text \<open>\<^verbatim>\<open>static int _wW = 1280, _wH = 512;\<close> (never assigned afterwards).\<close>

definition wW :: int where
  "wW = 1280"

definition wH :: int where
  "wH = 512"

text \<open>
  A plan made by \<^verbatim>\<open>fftw_plan_dft_1d(n, in, out, FFTW_FORWARD, FFTW_ESTIMATE)\<close>: a forward
  one-dimensional transform of size \<open>n\<close>. The source makes no other kind of plan.
\<close>

datatype fftw_plan = Plan_dft_1d nat

text \<open>
  The globals. A \<^verbatim>\<open>fftw_complex\<close> is a pair of doubles, \<^verbatim>\<open>z[0]\<close> the real and
  \<^verbatim>\<open>z[1]\<close> the imaginary part. A null pointer is \<open>None\<close> for the plan and the empty
  list for the two FFTW arrays.
\<close>

record state =
  samples :: "real list"
  hauteurs :: "16 word list"
  waveform :: int
  in4fftw :: "complex list"
  out4fftw :: "complex list"
  plan4fftw :: "fftw_plan option"

text \<open>The state at program start: static arrays are zero, pointers are null.\<close>

definition initial_state :: state where
  "initial_state =
     \<lparr> samples = replicate ECHANTILLONS 0,
       hauteurs = replicate FREQUENCES 0,
       waveform = 0,
       in4fftw = [],
       out4fftw = [],
       plan4fftw = None \<rparr>"

text \<open>
  The FFTW part of \<^verbatim>\<open>init\<close> (lines 77 to 83): \<^verbatim>\<open>_in4fftw\<close> is allocated and zeroed by
  \<^verbatim>\<open>memset\<close>, \<^verbatim>\<open>_out4fftw\<close> is allocated and left as it comes, and the plan is made.
  The argument \<open>out0\<close> is the unspecified content of the fresh output array (4096
  entries). The rest of \<^verbatim>\<open>init\<close> (GL and jack set-up) touches none of the fields.
\<close>

definition init :: "complex list \<Rightarrow> state \<Rightarrow> state" where
  "init out0 s =
     s\<lparr> in4fftw := replicate ECHANTILLONS 0,
        out4fftw := out0,
        plan4fftw := Some (Plan_dft_1d ECHANTILLONS) \<rparr>"

subsection \<open>The rolling sample buffer (lines 156 to 168 of mixCallback)\<close>

text \<open>
  The \<^verbatim>\<open>if\<close>/\<^verbatim>\<open>else\<close> that merges the new frames into \<^verbatim>\<open>_samples\<close>, with its three
  loops; \<open>fin\<close> is the source's local \<^verbatim>\<open>end\<close>. Frames are only copied, so the entry
  type is left open.
\<close>

definition ingest :: "nat \<Rightarrow> 'a list \<Rightarrow> 'a list \<Rightarrow> 'a list" where
  "ingest nframes buffer smp =
     (if nframes > ECHANTILLONS then
        fold (\<lambda>i s. s[i := buffer ! i]) [0..<ECHANTILLONS] smp
      else
        let s1 = fold (\<lambda>i s. s[i - nframes := s ! i]) [nframes..<ECHANTILLONS] smp;
            fin = ECHANTILLONS - nframes
        in fold (\<lambda>i s. s[i + fin := buffer ! i]) [0..<nframes] s1)"

subsection \<open>The spectral analysis (lines 171 to 178 of mixCallback)\<close>

text \<open>
  Modelled from the spec: what \<^verbatim>\<open>fftw_execute\<close> computes. FFTW is a library outside the
  sources; the spec (4.2, step 2) and the plan's arguments say it is the forward discrete
  Fourier transform of the input array, output \<open>k\<close> being the sum over \<open>n\<close> of
  \<open>x\<^sub>n\<close> times \<open>exp (- 2 \<pi> i k n / N)\<close>, unnormalised.
\<close>

definition dft :: "complex list \<Rightarrow> complex list" where
  "dft xs =
     map (\<lambda>k. \<Sum>n = 0..<length xs. xs ! n * cis (- (2 * pi * real k * real n / real (length xs))))
       [0..<length xs]"

definition fftw_execute :: "fftw_plan \<Rightarrow> complex list \<Rightarrow> complex list" where
  "fftw_execute p inp = (case p of Plan_dft_1d n \<Rightarrow> dft (take n inp))"

text \<open>
  The cast \<^verbatim>\<open>(int) d\<close> of a \<^verbatim>\<open>float\<close> or \<^verbatim>\<open>double\<close> to the 32-bit \<^verbatim>\<open>int\<close>: the
  fractional part is discarded (truncation towards zero). C defines the cast only where
  the truncated value fits an \<^verbatim>\<open>int\<close>. Outside that range the model returns
  \<^verbatim>\<open>INT_MIN\<close>, which is what the conversion instructions of x86-64 deliver there; no
  theorem below rests on that branch.
\<close>

definition INT_MIN :: int where
  "INT_MIN = - 2147483648"

definition INT_MAX :: int where
  "INT_MAX = 2147483647"

definition int_of_double :: "real \<Rightarrow> int" where
  "int_of_double d =
     (let t = (if 0 \<le> d then \<lfloor>d\<rfloor> else \<lceil>d\<rceil>)
      in if INT_MIN \<le> t \<and> t \<le> INT_MAX then t else INT_MIN)"

text \<open>
  The right-hand side of line 178 and its store into a \<^verbatim>\<open>Sint16\<close>. The conversion of
  an \<^verbatim>\<open>int\<close> to a narrower signed type keeps the low 16 bits (implementation-defined in
  C, and what gcc, clang and msvc do).
\<close>

definition hauteur :: "complex list \<Rightarrow> nat \<Rightarrow> 16 word" where
  "hauteur out i =
     word_of_int (int_of_double
       (sqrt (Re (out ! i) * Re (out ! i) + Im (out ! i) * Im (out ! i))
          * exp (2 * real i / real FREQUENCES)))"

definition analyze :: "fftw_plan \<Rightarrow> state \<Rightarrow> state" where
  "analyze p s =
     (let s1 = s\<lparr> in4fftw :=
                   fold (\<lambda>i inp. inp[i := Complex (samples s ! i) (Im (inp ! i))])
                     [0..<ECHANTILLONS] (in4fftw s) \<rparr>;
          s2 = s1\<lparr> out4fftw := fftw_execute p (in4fftw s1) \<rparr>
      in s2\<lparr> hauteurs :=
               fold (\<lambda>i h. h[i := hauteur (out4fftw s2) i]) [0..<FREQUENCES] (hauteurs s2) \<rparr>)"

subsection \<open>The jack process callback\<close>

text \<open>
  \<open>buffer\<close> is what \<^verbatim>\<open>jack_port_get_buffer\<close> returns for the port: the \<open>nframes\<close> new
  frames. The result is the returned status and the new globals.
\<close>

definition mixCallback :: "nat \<Rightarrow> real list \<Rightarrow> state \<Rightarrow> int \<times> state" where
  "mixCallback nframes buffer s =
     (case plan4fftw s of
        None \<Rightarrow> (0, s)
      | Some p \<Rightarrow> (0, analyze p (s\<lparr> samples := ingest nframes buffer (samples s) \<rparr>)))"

subsection \<open>Keyboard and drawing\<close>

text \<open>The \<^verbatim>\<open>switch\<close> of \<^verbatim>\<open>keydown\<close>: two named key codes and the default case.\<close>

datatype keycode = GL4DK_LEFT | GL4DK_RIGHT | GL4DK_other

fun keydown :: "keycode \<Rightarrow> state \<Rightarrow> state" where
  "keydown GL4DK_LEFT s = s\<lparr> waveform := 0 \<rparr>"
| "keydown GL4DK_RIGHT s = s\<lparr> waveform := 1 \<rparr>"
| "keydown GL4DK_other s = s"

text \<open>The two \<^verbatim>\<open>if\<close> statements applied to \<^verbatim>\<open>y0\<close> in both loops of \<^verbatim>\<open>draw\<close>.\<close>

definition clamp_y0 :: "int \<Rightarrow> int" where
  "clamp_y0 y0 =
     (let y1 = (if y0 > wH then wH - 1 else y0)
      in if y1 < 0 then 0 else y1)"

text \<open>
  \<^verbatim>\<open>draw\<close> as the list of its \<^verbatim>\<open>gl4dpPutPixel(x0, y0)\<close> calls, in order. The operands
  of the integer divisions are not negative, so C's division and \<open>div\<close> agree.
\<close>

definition draw :: "state \<Rightarrow> (int \<times> int) list" where
  "draw s =
     (if waveform s = 1 then
        map (\<lambda>i. ((int i * (wW - 1)) div (int ECHANTILLONS - 1),
                  clamp_y0 (int_of_double ((samples s ! i * real_of_int wH + real_of_int wH) / 2))))
          [0..<ECHANTILLONS]
      else
        map (\<lambda>i. ((int i * (wW - 1)) div (int FREQUENCES - 1),
                  clamp_y0 (sint (hauteurs s ! i))))
          [0..<FREQUENCES])"

subsection \<open>The invariant of the globals, and the value cast for a bin\<close>

text \<open>
  What \<^verbatim>\<open>init\<close> establishes and \<^verbatim>\<open>mixCallback\<close> keeps: the two static arrays have
  their declared sizes, and once the plan exists it is the plan of size 4096 and the input
  array has 4096 entries whose imaginary parts are still the zeros of \<^verbatim>\<open>memset\<close>.
\<close>

definition wf_state :: "state \<Rightarrow> bool" where
  "wf_state s \<longleftrightarrow>
     length (samples s) = ECHANTILLONS \<and> length (hauteurs s) = FREQUENCES
     \<and> (plan4fftw s = None
        \<or> plan4fftw s = Some (Plan_dft_1d ECHANTILLONS)
          \<and> length (in4fftw s) = ECHANTILLONS
          \<and> map Im (in4fftw s) = replicate ECHANTILLONS 0)"

text \<open>
  The integer that line 178 stores for bin \<open>i\<close> of a window, before its conversion to
  \<^verbatim>\<open>Sint16\<close>: the window's samples are the real parts of the transform's input, with
  zero imaginary parts, and the magnitude of output \<open>i\<close> is scaled and cast.
\<close>

definition spec_bin :: "real list \<Rightarrow> nat \<Rightarrow> int" where
  "spec_bin window i =
     int_of_double
       (sqrt ((Re (dft (map complex_of_real window) ! i))\<^sup>2
              + (Im (dft (map complex_of_real window) ! i))\<^sup>2)
          * exp (2 * real i / (real ECHANTILLONS / 4)))"

section \<open>Loops over an index range\<close>

lemma length_fold_update:
  "length (fold (\<lambda>i s. s[f i := g i s]) js smp) = length smp"
  by (induction js arbitrary: smp) simp_all

lemma fold_skip: "fold (\<lambda>i s. s) js smp = smp"
  by (induction js) simp_all

lemma update_hd_drop:
  "n < length xs \<Longrightarrow> (drop n xs)[0 := v] = v # drop (Suc n) xs"
  by (cases "drop n xs") (auto simp: drop_Suc drop_tl)

text \<open>A loop that rewrites entry \<open>i\<close> from its own old value, for \<open>i\<close> from 0 up.\<close>

lemma update_loop:
  "n \<le> length xs \<Longrightarrow>
   fold (\<lambda>i s. s[i := g i (s ! i)]) [0..<n] xs = map (\<lambda>i. g i (xs ! i)) [0..<n] @ drop n xs"
proof (induction n)
  case 0
  then show ?case by simp
next
  case (Suc n)
  let ?done = "map (\<lambda>i. g i (xs ! i)) [0..<n]"
  have rd: "(?done @ drop n xs) ! n = xs ! n"
    using Suc.prems by (simp add: nth_append)
  have "fold (\<lambda>i s. s[i := g i (s ! i)]) [0..<Suc n] xs
      = (?done @ drop n xs)[n := g n ((?done @ drop n xs) ! n)]"
    using Suc by simp
  also have "\<dots> = ?done @ (drop n xs)[0 := g n (xs ! n)]"
    unfolding rd by (simp add: list_update_append)
  also have "(drop n xs)[0 := g n (xs ! n)] = g n (xs ! n) # drop (Suc n) xs"
    using Suc.prems by (simp add: update_hd_drop)
  finally show ?case by simp
qed

lemma copy_loop:
  assumes "n \<le> length smp" "n \<le> length b"
  shows "fold (\<lambda>i s. s[i := b ! i]) [0..<n] smp = take n b @ drop n smp"
proof -
  have "map (\<lambda>i. b ! i) [0..<n] = take n b"
    using assms(2) by (simp add: list_eq_iff_nth_eq)
  then show ?thesis
    using update_loop[of n smp "\<lambda>i _. b ! i"] assms(1) by simp
qed

text \<open>The loop of line 162, which moves entry \<open>i\<close> to \<open>i - m\<close> for \<open>i\<close> from \<open>m\<close> up.\<close>

lemma shift_loop:
  "m \<le> k \<Longrightarrow> k \<le> length smp \<Longrightarrow>
   fold (\<lambda>i s. s[i - m := s ! i]) [m..<k] smp = take (k - m) (drop m smp) @ drop (k - m) smp"
proof (induction k)
  case 0
  then show ?case by simp
next
  case (Suc k)
  show ?case
  proof (cases "m \<le> k")
    case False
    with Suc.prems have "m = Suc k" by simp
    then show ?thesis by simp
  next
    case True
    let ?s = "take (k - m) (drop m smp) @ drop (k - m) smp"
    have len: "length (take (k - m) (drop m smp)) = k - m"
      using Suc.prems True by simp
    have rd: "?s ! k = smp ! k"
      using Suc.prems True by (auto simp: nth_append)
    have "fold (\<lambda>i s. s[i - m := s ! i]) [m..<Suc k] smp = ?s[k - m := ?s ! k]"
      using Suc True by simp
    also have "\<dots> = take (k - m) (drop m smp) @ (drop (k - m) smp)[0 := smp ! k]"
      using len rd by (simp add: list_update_append)
    also have "(drop (k - m) smp)[0 := smp ! k] = smp ! k # drop (Suc (k - m)) smp"
      using Suc.prems by (simp add: update_hd_drop)
    also have "take (k - m) (drop m smp) @ smp ! k # drop (Suc (k - m)) smp
        = take (Suc k - m) (drop m smp) @ drop (Suc k - m) smp"
      using Suc.prems True by (simp add: take_Suc_conv_app_nth Suc_diff_le)
    finally show ?thesis .
  qed
qed

text \<open>The loop of line 166, which writes the new frames from index \<open>e\<close> on.\<close>

lemma append_loop:
  "e + j \<le> length s1 \<Longrightarrow> j \<le> length b \<Longrightarrow>
   fold (\<lambda>i s. s[i + e := b ! i]) [0..<j] s1 = take e s1 @ take j b @ drop (e + j) s1"
proof (induction j)
  case 0
  then show ?case by simp
next
  case (Suc j)
  have "fold (\<lambda>i s. s[i + e := b ! i]) [0..<Suc j] s1
      = (take e s1 @ take j b @ drop (e + j) s1)[j + e := b ! j]"
    using Suc by simp
  also have "\<dots> = take e s1 @ take j b @ (drop (e + j) s1)[0 := b ! j]"
    using Suc.prems by (simp add: list_update_append)
  also have "(drop (e + j) s1)[0 := b ! j] = b ! j # drop (Suc (e + j)) s1"
    using Suc.prems by (simp add: update_hd_drop)
  finally show ?case
    using Suc.prems by (simp add: take_Suc_conv_app_nth)
qed

section \<open>The rolling sample buffer\<close>

lemma ingest_gt:
  assumes "nframes > ECHANTILLONS" "length buffer = nframes" "length smp = ECHANTILLONS"
  shows "ingest nframes buffer smp = take ECHANTILLONS buffer"
  using assms by (simp add: ingest_def copy_loop)

lemma ingest_le:
  assumes "nframes \<le> ECHANTILLONS" "length buffer = nframes" "length smp = ECHANTILLONS"
  shows "ingest nframes buffer smp = drop nframes smp @ buffer"
proof -
  let ?s1 = "fold (\<lambda>i s. s[i - nframes := s ! i]) [nframes..<ECHANTILLONS] smp"
  have s1: "?s1 = drop nframes smp @ drop (ECHANTILLONS - nframes) smp"
    using assms shift_loop[of nframes ECHANTILLONS smp] by simp
  have "ingest nframes buffer smp
      = fold (\<lambda>i s. s[i + (ECHANTILLONS - nframes) := buffer ! i]) [0..<nframes] ?s1"
    using assms by (simp add: ingest_def Let_def)
  also have "\<dots> = take (ECHANTILLONS - nframes) ?s1 @ take nframes buffer
                   @ drop (ECHANTILLONS - nframes + nframes) ?s1"
    using assms by (intro append_loop) (simp_all add: s1)
  also have "\<dots> = drop nframes smp @ buffer"
    using assms by (simp add: s1)
  finally show ?thesis .
qed

lemma length_ingest: "length (ingest nframes buffer smp) = length smp"
  by (simp add: ingest_def Let_def length_fold_update)

lemma ECHANTILLONS_pos: "0 < ECHANTILLONS" "2 < ECHANTILLONS" "16 < ECHANTILLONS"
  by (simp_all add: ECHANTILLONS_def)

text \<open>
  Claim C1, as amended. The claim says that a block of \<open>M \<ge> N\<close> frames leaves the last
  \<open>N\<close> frames of the block in the buffer. The source copies \<^verbatim>\<open>buffer[0..N)\<close>: the buffer
  ends up holding the first \<open>N\<close> frames of the block, in order, and the frames after them
  are dropped. For \<open>M = N\<close> that is the whole block, where the claim and the code agree.
\<close>

theorem ingest_full_block:
  assumes "nframes \<ge> ECHANTILLONS" "length buffer = nframes" "length smp = ECHANTILLONS"
  shows "ingest nframes buffer smp = take ECHANTILLONS buffer"
proof (cases "nframes > ECHANTILLONS")
  case True
  then show ?thesis using assms by (simp add: ingest_gt)
next
  case False
  with assms have "nframes = ECHANTILLONS" by simp
  then show ?thesis using assms by (simp add: ingest_le)
qed

theorem ingest_full_block_witness:
  "ingest (Suc ECHANTILLONS) (1 # replicate ECHANTILLONS (0::real)) (replicate ECHANTILLONS 0)
     = take ECHANTILLONS (1 # replicate ECHANTILLONS 0)"
  using ingest_full_block
    [of "Suc ECHANTILLONS" "1 # replicate ECHANTILLONS (0::real)" "replicate ECHANTILLONS 0"]
  by simp

text \<open>
  Claim C1 as stated fails: with \<open>N + 1\<close> new frames, the first of them 1 and the others 0,
  the buffer starts with 1, and the last \<open>N\<close> frames of the block are all 0.
\<close>

theorem ingest_full_block_counterexample:
  "ingest (Suc ECHANTILLONS) (1 # replicate ECHANTILLONS (0::real)) (replicate ECHANTILLONS 0)
     \<noteq> drop (Suc ECHANTILLONS - ECHANTILLONS) (1 # replicate ECHANTILLONS 0)"
proof -
  have "ingest (Suc ECHANTILLONS) (1 # replicate ECHANTILLONS (0::real)) (replicate ECHANTILLONS 0)
      = take ECHANTILLONS (1 # replicate ECHANTILLONS 0)"
    by (simp add: ingest_gt)
  moreover have "hd (take ECHANTILLONS (1 # replicate ECHANTILLONS (0::real))) = 1"
    using ECHANTILLONS_pos(1) by (cases ECHANTILLONS) simp_all
  moreover have "hd (drop (Suc ECHANTILLONS - ECHANTILLONS) (1 # replicate ECHANTILLONS (0::real))) = 0"
    using ECHANTILLONS_pos(1) by (cases ECHANTILLONS) simp_all
  ultimately show ?thesis by auto
qed

text \<open>
  Claim C2. For \<open>0 \<le> M < N\<close> new frames the buffer becomes its old entries \<open>[M..N)\<close>
  followed by the \<open>M\<close> new frames, and still has \<open>N\<close> entries.
\<close>

theorem ingest_shift_append:
  assumes "nframes < ECHANTILLONS" "length buffer = nframes" "length smp = ECHANTILLONS"
  shows "ingest nframes buffer smp = drop nframes smp @ take nframes buffer
       \<and> length (ingest nframes buffer smp) = ECHANTILLONS"
  using assms by (simp add: ingest_le length_ingest)

theorem ingest_shift_append_witness:
  "ingest 2 [5, 7] (replicate ECHANTILLONS (0::real))
     = drop 2 (replicate ECHANTILLONS 0) @ take 2 [5, 7]
   \<and> length (ingest 2 [5, 7] (replicate ECHANTILLONS (0::real))) = ECHANTILLONS"
  using ingest_shift_append [of 2 "[5, 7]" "replicate ECHANTILLONS (0::real)"] ECHANTILLONS_pos(2)
  by simp

text \<open>
  Claim C6. Whatever the number of new frames, also above \<open>N\<close>, a buffer of
  \<open>N = 4096\<close> entries has 4096 entries after \<open>ingest\<close>.
\<close>

theorem ingest_keeps_size:
  assumes "length smp = ECHANTILLONS"
  shows "length (ingest nframes buffer smp) = ECHANTILLONS \<and> ECHANTILLONS = 4096"
  using assms by (simp add: length_ingest) (simp add: ECHANTILLONS_def)

theorem ingest_keeps_size_witness:
  "length (ingest 5000 (replicate 5000 1) (replicate ECHANTILLONS (0::real))) = ECHANTILLONS
   \<and> ECHANTILLONS = 4096"
  using ingest_keeps_size [of "replicate ECHANTILLONS (0::real)" 5000 "replicate 5000 1"]
  by simp

text \<open>Claim C9. With no new frame, \<open>ingest\<close> returns the buffer it was given.\<close>

theorem ingest_no_frames: "ingest 0 buffer smp = smp"
  by (simp add: ingest_def Let_def fold_skip)

section \<open>The callback and the plan\<close>

lemma samples_analyze: "samples (analyze p s) = samples s"
  by (simp add: analyze_def Let_def)

lemma waveform_analyze: "waveform (analyze p s) = waveform s"
  by (simp add: analyze_def Let_def)

lemma plan4fftw_analyze: "plan4fftw (analyze p s) = plan4fftw s"
  by (simp add: analyze_def Let_def)

lemma mixCallback_None: "plan4fftw s = None \<Longrightarrow> mixCallback nframes buffer s = (0, s)"
  by (simp add: mixCallback_def)

lemma mixCallback_Some:
  "plan4fftw s = Some p \<Longrightarrow>
   mixCallback nframes buffer s
     = (0, analyze p (s\<lparr> samples := ingest nframes buffer (samples s) \<rparr>))"
  by (simp add: mixCallback_def)

lemma samples_mixCallback:
  "samples (snd (mixCallback nframes buffer s))
     = (if plan4fftw s = None then samples s else ingest nframes buffer (samples s))"
  by (cases "plan4fftw s") (simp_all add: mixCallback_def samples_analyze)

lemma fst_mixCallback: "fst (mixCallback nframes buffer s) = 0"
  by (cases "plan4fftw s") (simp_all add: mixCallback_def)

lemma samples_after_full_block:
  "samples (snd (mixCallback ECHANTILLONS (replicate ECHANTILLONS c)
       (init (replicate ECHANTILLONS 0) initial_state)))
   = replicate ECHANTILLONS c"
  by (simp add: samples_mixCallback init_def initial_state_def ingest_le)

lemma waveform_mixCallback: "waveform (snd (mixCallback nframes buffer s)) = waveform s"
  by (cases "plan4fftw s") (simp_all add: mixCallback_def waveform_analyze)

text \<open>
  Claim C4, as amended. The callback returns 0 on every invocation and never fails. The
  whole body is under \<^verbatim>\<open>if(_plan4fftw)\<close>: with a plan, the new frames are ingested into
  the sample buffer; without a plan, the ingestion is skipped
  together with the analysis, and the globals are left as they were.
\<close>

theorem callback_ingests_when_planned:
  "fst (mixCallback nframes buffer s) = 0
   \<and> samples (snd (mixCallback nframes buffer s))
       = (if plan4fftw s = None then samples s else ingest nframes buffer (samples s))
   \<and> (plan4fftw s = None \<longrightarrow> snd (mixCallback nframes buffer s) = s)"
  by (simp add: fst_mixCallback samples_mixCallback mixCallback_None)

theorem callback_ingests_when_planned_witness:
  "plan4fftw initial_state = None
   \<and> fst (mixCallback 1 [1] initial_state) = 0
   \<and> samples (snd (mixCallback 1 [1] initial_state)) = samples initial_state
   \<and> snd (mixCallback 1 [1] initial_state) = initial_state"
  using callback_ingests_when_planned [of 1 "[1]" initial_state]
  by (simp add: initial_state_def)

text \<open>
  Claim C4 as stated fails: before \<^verbatim>\<open>init\<close> has made the plan, a callback with one
  frame of value 1 does not ingest it.
\<close>

theorem callback_ingests_counterexample:
  "samples (snd (mixCallback 1 [1] initial_state)) \<noteq> ingest 1 [1] (samples initial_state)"
proof -
  have "samples (snd (mixCallback 1 [1] initial_state)) = replicate ECHANTILLONS 0"
    by (simp add: mixCallback_None initial_state_def)
  moreover have "ingest 1 [1] (samples initial_state) = drop 1 (replicate ECHANTILLONS 0) @ [1::real]"
    using ECHANTILLONS_pos(1) by (simp add: ingest_le initial_state_def)
  moreover have "last (replicate ECHANTILLONS (0::real)) = 0"
    using ECHANTILLONS_pos(1) by simp
  ultimately show ?thesis
    by (metis last_snoc zero_neq_one)
qed

text \<open>
  Claim C10. Without a plan the callback returns status 0 and changes nothing: the sample
  buffer and the frequency bins are the ones before the call, for every frame count and
  every state.
\<close>

theorem callback_without_plan:
  assumes "plan4fftw s = None"
  shows "mixCallback nframes buffer s = (0, s)
       \<and> samples (snd (mixCallback nframes buffer s)) = samples s
       \<and> hauteurs (snd (mixCallback nframes buffer s)) = hauteurs s"
  using assms by (simp add: mixCallback_None)

theorem callback_without_plan_witness:
  "mixCallback 16 (replicate 16 1) initial_state = (0, initial_state)
   \<and> samples (snd (mixCallback 16 (replicate 16 1) initial_state)) = samples initial_state
   \<and> hauteurs (snd (mixCallback 16 (replicate 16 1) initial_state)) = hauteurs initial_state"
  using callback_without_plan [of initial_state 16 "replicate 16 1"]
  by (simp add: initial_state_def)

section \<open>The analysis\<close>

lemma FREQUENCES_eq: "FREQUENCES = 1024"
  by (simp add: FREQUENCES_def ECHANTILLONS_def drop_bit_eq_div)

lemma FREQUENCES_quarter: "real FREQUENCES = real ECHANTILLONS / 4"
  by (simp add: FREQUENCES_eq ECHANTILLONS_def)

lemma FREQUENCES_le: "FREQUENCES \<le> ECHANTILLONS" "0 < FREQUENCES"
  by (simp_all add: FREQUENCES_eq ECHANTILLONS_def)

lemma stage_loop:
  assumes "length inp = ECHANTILLONS" "length smp = ECHANTILLONS"
    and "map Im inp = replicate ECHANTILLONS 0"
  shows "fold (\<lambda>i inp. inp[i := Complex (smp ! i) (Im (inp ! i))]) [0..<ECHANTILLONS] inp
       = map complex_of_real smp"
proof -
  have im: "Im (inp ! i) = 0" if "i < ECHANTILLONS" for i
  proof -
    have "Im (inp ! i) = map Im inp ! i" using that assms(1) by simp
    also have "\<dots> = 0" unfolding assms(3) using that by simp
    finally show ?thesis .
  qed
  have "fold (\<lambda>i inp. inp[i := Complex (smp ! i) (Im (inp ! i))]) [0..<ECHANTILLONS] inp
      = map (\<lambda>i. Complex (smp ! i) (Im (inp ! i))) [0..<ECHANTILLONS] @ drop ECHANTILLONS inp"
    using update_loop[of ECHANTILLONS inp "\<lambda>i z. Complex (smp ! i) (Im z)"] assms(1) by simp
  also have "\<dots> = map complex_of_real smp"
    using assms(1,2) im by (simp add: list_eq_iff_nth_eq complex_eq_iff)
  finally show ?thesis .
qed

lemma bins_loop:
  assumes "length h = FREQUENCES"
  shows "fold (\<lambda>i h. h[i := hauteur out i]) [0..<FREQUENCES] h = map (hauteur out) [0..<FREQUENCES]"
  using update_loop[of FREQUENCES h "\<lambda>i _. hauteur out i"] assms by simp

lemma length_dft: "length (dft xs) = length xs"
  by (simp add: dft_def)

lemma analyze_planned:
  assumes "wf_state s" "plan4fftw s = Some p"
  shows "in4fftw (analyze p s) = map complex_of_real (samples s)"
    and "out4fftw (analyze p s) = dft (map complex_of_real (samples s))"
    and "hauteurs (analyze p s)
           = map (hauteur (dft (map complex_of_real (samples s)))) [0..<FREQUENCES]"
proof -
  from assms have p: "p = Plan_dft_1d ECHANTILLONS"
    and len: "length (samples s) = ECHANTILLONS" "length (in4fftw s) = ECHANTILLONS"
             "length (hauteurs s) = FREQUENCES"
    and im: "map Im (in4fftw s) = replicate ECHANTILLONS 0"
    by (auto simp: wf_state_def)
  note st = stage_loop[OF len(2) len(1) im]
  show "in4fftw (analyze p s) = map complex_of_real (samples s)"
    by (simp add: analyze_def Let_def st)
  show "out4fftw (analyze p s) = dft (map complex_of_real (samples s))"
    by (simp add: analyze_def Let_def st p fftw_execute_def len)
  show "hauteurs (analyze p s)
           = map (hauteur (dft (map complex_of_real (samples s)))) [0..<FREQUENCES]"
    by (simp add: analyze_def Let_def st p fftw_execute_def len bins_loop)
qed

lemma wf_init: "wf_state (init out0 initial_state)"
  by (simp add: wf_state_def init_def initial_state_def)

lemma wf_initial: "wf_state initial_state"
  by (simp add: wf_state_def initial_state_def)

lemma wf_mixCallback:
  assumes "wf_state s"
  shows "wf_state (snd (mixCallback nframes buffer s))"
proof (cases "plan4fftw s")
  case None
  then show ?thesis using assms by (simp add: mixCallback_None)
next
  case (Some p)
  let ?t = "s\<lparr> samples := ingest nframes buffer (samples s) \<rparr>"
  have wt: "wf_state ?t"
    using assms by (simp add: wf_state_def length_ingest)
  have pt: "plan4fftw ?t = Some p" using Some by simp
  have "wf_state (analyze p ?t)"
    using wt pt analyze_planned(1,3)[OF wt pt]
    by (auto simp: wf_state_def samples_analyze plan4fftw_analyze o_def map_replicate_const)
  then show ?thesis using Some by (simp add: mixCallback_Some)
qed

subsection \<open>What a bin holds\<close>

lemma hauteur_spec_bin:
  assumes "i < FREQUENCES"
  shows "hauteur (dft (map complex_of_real window)) i = word_of_int (spec_bin window i)"
  by (simp add: hauteur_def spec_bin_def power2_eq_square FREQUENCES_quarter)

lemma hauteurs_mixCallback:
  assumes "wf_state s" "plan4fftw s = Some p"
  shows "hauteurs (snd (mixCallback nframes buffer s))
       = map (hauteur (dft (map complex_of_real (samples (snd (mixCallback nframes buffer s))))))
           [0..<FREQUENCES]"
proof -
  let ?t = "s\<lparr> samples := ingest nframes buffer (samples s) \<rparr>"
  have wt: "wf_state ?t"
    using assms by (simp add: wf_state_def length_ingest)
  have pt: "plan4fftw ?t = Some p" using assms by simp
  show ?thesis
    using analyze_planned(3)[OF wt pt] assms(2)
    by (simp add: mixCallback_Some samples_analyze)
qed

lemma out4fftw_mixCallback:
  assumes "wf_state s" "plan4fftw s = Some p"
  shows "out4fftw (snd (mixCallback nframes buffer s))
       = dft (map complex_of_real (samples (snd (mixCallback nframes buffer s))))"
proof -
  let ?t = "s\<lparr> samples := ingest nframes buffer (samples s) \<rparr>"
  have wt: "wf_state ?t"
    using assms by (simp add: wf_state_def length_ingest)
  have pt: "plan4fftw ?t = Some p" using assms by simp
  show ?thesis
    using analyze_planned(2)[OF wt pt] assms(2)
    by (simp add: mixCallback_Some samples_analyze)
qed

lemma bin_mixCallback:
  assumes "wf_state s" "plan4fftw s = Some p" "i < FREQUENCES"
  shows "hauteurs (snd (mixCallback nframes buffer s)) ! i
       = word_of_int (spec_bin (samples (snd (mixCallback nframes buffer s))) i)"
  using hauteurs_mixCallback[OF assms(1,2)] assms(3) by (simp add: hauteur_spec_bin)

subsection \<open>Bounds\<close>

lemma dft_nth:
  "k < length xs \<Longrightarrow>
   dft xs ! k = (\<Sum>n = 0..<length xs. xs ! n * cis (- (2 * pi * real k * real n / real (length xs))))"
  by (simp add: dft_def)

lemma norm_dft_le:
  assumes "k < length xs" "\<And>x. x \<in> set xs \<Longrightarrow> norm x \<le> 1"
  shows "norm (dft xs ! k) \<le> real (length xs)"
proof -
  have "norm (dft xs ! k)
      \<le> (\<Sum>n = 0..<length xs. norm (xs ! n * cis (- (2 * pi * real k * real n / real (length xs)))))"
    unfolding dft_nth[OF assms(1)] by (rule norm_sum)
  also have "\<dots> = (\<Sum>n = 0..<length xs. norm (xs ! n))"
    by (simp add: norm_mult)
  also have "\<dots> \<le> (\<Sum>n = 0..<length xs. 1)"
    by (rule sum_mono) (simp add: assms(2))
  also have "\<dots> = real (length xs)" by simp
  finally show ?thesis .
qed

lemma exp_2_less_8: "exp (2::real) < 8"
proof -
  have "exp (1/16 :: real) \<le> 1 + 1/16 + (1/16)\<^sup>2"
    by (rule exp_bound) simp_all
  then have le: "exp (1/16 :: real) \<le> 273/256"
    by (simp add: power2_eq_square)
  have "exp (2::real) = exp (of_nat 32 * (1/16))" by simp
  also have "\<dots> = exp (1/16) ^ 32" by (rule exp_of_nat_mult)
  also have "\<dots> \<le> (273/256 :: real) ^ 32"
    by (rule power_mono[OF le]) simp
  also have "\<dots> < 8" by (simp add: power_divide)
  finally show ?thesis .
qed

lemma int_of_double_nonneg:
  "0 \<le> d \<Longrightarrow> d < 2147483648 \<Longrightarrow> int_of_double d = \<lfloor>d\<rfloor>"
proof -
  assume d: "0 \<le> d" "d < 2147483648"
  then have "0 \<le> \<lfloor>d\<rfloor>" "\<lfloor>d\<rfloor> < 2147483648"
    by (simp_all add: floor_less_iff)
  then show ?thesis
    using d(1) by (simp add: int_of_double_def Let_def INT_MIN_def INT_MAX_def)
qed

lemma int_of_double_overflow:
  "2147483648 \<le> d \<Longrightarrow> int_of_double d = INT_MIN"
proof -
  assume d: "2147483648 \<le> d"
  then have "2147483648 \<le> \<lfloor>d\<rfloor>"
    by (simp add: le_floor_iff)
  then show ?thesis
    using d by (simp add: int_of_double_def Let_def INT_MIN_def INT_MAX_def)
qed

lemma spec_bin_normalised:
  assumes "length window = ECHANTILLONS" "i < FREQUENCES"
    and "\<And>x. x \<in> set window \<Longrightarrow> \<bar>x\<bar> \<le> 1"
  shows "0 \<le> spec_bin window i \<and> spec_bin window i < 32768"
proof -
  let ?z = "dft (map complex_of_real window) ! i"
  have i: "i < length (map complex_of_real window)"
    using assms(1,2) FREQUENCES_le(1) by simp
  have "norm ?z \<le> real (length (map complex_of_real window))"
    using assms(3) by (intro norm_dft_le[OF i]) auto
  then have n: "norm ?z \<le> 4096" using assms(1) by (simp add: ECHANTILLONS_def)
  have "2 * real i / (real ECHANTILLONS / 4) \<le> 2"
    using assms(2) by (simp add: FREQUENCES_eq ECHANTILLONS_def)
  then have "exp (2 * real i / (real ECHANTILLONS / 4)) \<le> exp 2"
    by (simp only: exp_le_cancel_iff)
  then have e: "exp (2 * real i / (real ECHANTILLONS / 4)) < 8"
    by (rule le_less_trans) (rule exp_2_less_8)
  have "norm ?z * exp (2 * real i / (real ECHANTILLONS / 4))
      \<le> 4096 * exp (2 * real i / (real ECHANTILLONS / 4))"
    by (rule mult_right_mono[OF n]) simp
  also have "\<dots> < 4096 * 8"
    using e by simp
  finally have lt: "sqrt ((Re ?z)\<^sup>2 + (Im ?z)\<^sup>2) * exp (2 * real i / (real ECHANTILLONS / 4)) < 32768"
    by (simp add: norm_complex_def)
  have ge: "0 \<le> sqrt ((Re ?z)\<^sup>2 + (Im ?z)\<^sup>2) * exp (2 * real i / (real ECHANTILLONS / 4))"
    by simp
  have "spec_bin window i
      = \<lfloor>sqrt ((Re ?z)\<^sup>2 + (Im ?z)\<^sup>2) * exp (2 * real i / (real ECHANTILLONS / 4))\<rfloor>"
    unfolding spec_bin_def using lt by (intro int_of_double_nonneg[OF ge]) simp
  then show ?thesis
    using lt ge by (simp add: floor_less_iff)
qed

lemma sint_bin_in_range:
  assumes "- 32768 \<le> k" "k < 32768"
  shows "sint (word_of_int k :: 16 word) = k"
  using assms by (simp add: sint_sbintrunc' signed_take_bit_int_eq_self)

subsection \<open>Constant windows\<close>

lemma dft_const_0:
  assumes "0 < n"
  shows "dft (replicate n (complex_of_real c)) ! 0 = complex_of_real (real n * c)"
  using assms by (simp add: dft_nth)

lemma spec_bin_const_0:
  assumes "0 \<le> c" "c \<le> 10"
  shows "spec_bin (replicate ECHANTILLONS c) 0 = \<lfloor>4096 * c\<rfloor>"
proof -
  have z: "dft (map complex_of_real (replicate ECHANTILLONS c)) ! 0 = complex_of_real (4096 * c)"
    using dft_const_0[OF ECHANTILLONS_pos(1), of c] by (simp add: ECHANTILLONS_def)
  have "sqrt ((Re (complex_of_real (4096 * c)))\<^sup>2 + (Im (complex_of_real (4096 * c)))\<^sup>2)
      = cmod (complex_of_real (4096 * c))"
    by (simp only: norm_complex_def)
  also have "\<dots> = 4096 * c"
    using assms by simp
  finally show ?thesis
    unfolding spec_bin_def z using assms by (simp add: int_of_double_nonneg)
qed

lemma dft_zero:
  "dft (map complex_of_real (replicate n 0)) = replicate n 0"
  by (simp add: dft_def list_eq_iff_nth_eq)

lemma hauteur_zero: "i < n \<Longrightarrow> hauteur (replicate n 0) i = 0"
  by (simp add: hauteur_def int_of_double_nonneg)

section \<open>The frequency bins\<close>

lemma samples_idle:
  "samples (snd (mixCallback 0 [] (init [] initial_state))) = replicate ECHANTILLONS 0"
  by (simp add: samples_mixCallback init_def initial_state_def ingest_def Let_def fold_skip)

lemma sint_40960: "sint (word_of_int 40960 :: 16 word) = - 24576"
  by (simp add: sint_sbintrunc' signed_take_bit_eq_take_bit_minus take_bit_eq_mod bit_iff_odd)

lemma loud_bin:
  "hauteurs (snd (mixCallback ECHANTILLONS (replicate ECHANTILLONS 10)
       (init (replicate ECHANTILLONS 0) initial_state))) ! 0 = word_of_int 40960"
proof -
  have p: "plan4fftw (init (replicate ECHANTILLONS 0) initial_state) = Some (Plan_dft_1d ECHANTILLONS)"
    by (simp add: init_def)
  show ?thesis
    unfolding bin_mixCallback[OF wf_init p FREQUENCES_le(2)] samples_after_full_block
    by (simp add: spec_bin_const_0)
qed

text \<open>
  Claim C7, as amended. After every analysis pass the bins are exactly \<open>N / 4 = 1024\<close>
  entries, each of them written by this pass from the transform's output; an entry is
  not negative whenever all samples of the window lie in \<open>[-1, 1]\<close>.
\<close>

theorem bins_after_pass:
  assumes "wf_state s" "plan4fftw s = Some p" "i < FREQUENCES"
  shows "length (hauteurs (snd (mixCallback nframes buffer s))) = FREQUENCES
       \<and> FREQUENCES = 1024
       \<and> hauteurs (snd (mixCallback nframes buffer s))
           = map (hauteur (out4fftw (snd (mixCallback nframes buffer s)))) [0..<FREQUENCES]
       \<and> ((\<forall>x \<in> set (samples (snd (mixCallback nframes buffer s))). \<bar>x\<bar> \<le> 1) \<longrightarrow>
            0 \<le> sint (hauteurs (snd (mixCallback nframes buffer s)) ! i))"
proof -
  let ?s' = "snd (mixCallback nframes buffer s)"
  have len: "length (samples ?s') = ECHANTILLONS"
    using wf_mixCallback[OF assms(1)] by (simp add: wf_state_def)
  have h: "hauteurs ?s' = map (hauteur (out4fftw ?s')) [0..<FREQUENCES]"
    unfolding out4fftw_mixCallback[OF assms(1,2)] by (rule hauteurs_mixCallback[OF assms(1,2)])
  have l: "length (hauteurs ?s') = FREQUENCES"
    using wf_mixCallback[OF assms(1)] by (simp add: wf_state_def)
  have pos: "0 \<le> sint (hauteurs ?s' ! i)"
    if n: "\<forall>x \<in> set (samples ?s'). \<bar>x\<bar> \<le> 1"
  proof -
    have b: "0 \<le> spec_bin (samples ?s') i \<and> spec_bin (samples ?s') i < 32768"
      using n by (intro spec_bin_normalised[OF len assms(3)]) simp
    then have "sint (hauteurs ?s' ! i) = spec_bin (samples ?s') i"
      unfolding bin_mixCallback[OF assms] by (intro sint_bin_in_range) simp_all
    then show ?thesis using b by simp
  qed
  show ?thesis
    using h l pos FREQUENCES_eq by blast
qed

theorem bins_after_pass_witness:
  "length (hauteurs (snd (mixCallback 0 [] (init [] initial_state)))) = FREQUENCES
   \<and> FREQUENCES = 1024
   \<and> hauteurs (snd (mixCallback 0 [] (init [] initial_state)))
       = map (hauteur (out4fftw (snd (mixCallback 0 [] (init [] initial_state))))) [0..<FREQUENCES]
   \<and> 0 \<le> sint (hauteurs (snd (mixCallback 0 [] (init [] initial_state))) ! 0)"
proof -
  have p: "plan4fftw (init [] initial_state) = Some (Plan_dft_1d ECHANTILLONS)"
    by (simp add: init_def)
  have n: "\<forall>x \<in> set (samples (snd (mixCallback 0 [] (init [] initial_state)))). \<bar>x\<bar> \<le> 1"
    unfolding samples_idle by simp
  show ?thesis
    using bins_after_pass [OF wf_init p FREQUENCES_le(2), where nframes = 0 and buffer = "[]"] n
    by blast
qed

text \<open>
  Claim C7 as stated fails: for the window of 4096 samples of value 10, bin 0 is negative.
\<close>

theorem bins_nonnegative_counterexample:
  "sint (hauteurs (snd (mixCallback ECHANTILLONS (replicate ECHANTILLONS 10)
       (init (replicate ECHANTILLONS 0) initial_state))) ! 0) < 0"
  unfolding loud_bin sint_40960 by simp

text \<open>
  Claim C8. The analysis of a window of \<open>N\<close> zeros gives \<open>N / 4\<close> bins that are
  all 0.
\<close>

theorem silence_gives_zero_bins:
  assumes "wf_state s" "plan4fftw s = Some p" "samples s = replicate ECHANTILLONS 0"
  shows "hauteurs (analyze p s) = replicate FREQUENCES 0
       \<and> length (hauteurs (analyze p s)) = ECHANTILLONS div 4"
proof -
  have "hauteurs (analyze p s) = map (hauteur (replicate ECHANTILLONS 0)) [0..<FREQUENCES]"
    unfolding analyze_planned(3)[OF assms(1,2)] assms(3) dft_zero ..
  also have "\<dots> = replicate FREQUENCES 0"
    using FREQUENCES_le(1) by (simp add: list_eq_iff_nth_eq hauteur_zero)
  finally show ?thesis
    by (simp add: FREQUENCES_eq ECHANTILLONS_def)
qed

theorem silence_gives_zero_bins_witness:
  "hauteurs (analyze (Plan_dft_1d ECHANTILLONS) (init [] initial_state)) = replicate FREQUENCES 0
   \<and> length (hauteurs (analyze (Plan_dft_1d ECHANTILLONS) (init [] initial_state)))
       = ECHANTILLONS div 4"
proof -
  have p: "plan4fftw (init [] initial_state) = Some (Plan_dft_1d ECHANTILLONS)"
    by (simp add: init_def)
  have z: "samples (init [] initial_state) = replicate ECHANTILLONS 0"
    by (simp add: init_def initial_state_def)
  show ?thesis
    using silence_gives_zero_bins [OF wf_init p z] .
qed

section \<open>Drawing\<close>

lemma clamp_y0_wH: "clamp_y0 wH = wH"
  by (simp add: clamp_y0_def wH_def)

lemma clamp_y0_range: "0 \<le> clamp_y0 y \<and> clamp_y0 y \<le> wH"
  by (simp add: clamp_y0_def wH_def)

lemma draw_waveform_full_scale:
  "snd (draw (keydown GL4DK_RIGHT
         (snd (mixCallback ECHANTILLONS (replicate ECHANTILLONS 1)
                (init (replicate ECHANTILLONS 0) initial_state)))) ! 0) = wH"
proof -
  let ?s = "keydown GL4DK_RIGHT
         (snd (mixCallback ECHANTILLONS (replicate ECHANTILLONS 1)
                (init (replicate ECHANTILLONS 0) initial_state)))"
  have w: "waveform ?s = 1" by simp
  have smp: "samples ?s = replicate ECHANTILLONS 1"
    by (simp add: samples_after_full_block)
  have "snd (draw ?s ! 0)
      = clamp_y0 (int_of_double ((samples ?s ! 0 * real_of_int wH + real_of_int wH) / 2))"
    unfolding draw_def using w ECHANTILLONS_pos(1) by (simp del: keydown.simps add: nth_map_upt)
  also have "\<dots> = clamp_y0 wH"
    unfolding smp using ECHANTILLONS_pos(1) by (simp add: int_of_double_nonneg wH_def)
  finally show ?thesis by (simp add: clamp_y0_wH)
qed

lemma eighth_bin:
  "hauteurs (snd (mixCallback ECHANTILLONS (replicate ECHANTILLONS (1/8))
       (init (replicate ECHANTILLONS 0) initial_state))) ! 0 = word_of_int 512"
proof -
  have p: "plan4fftw (init (replicate ECHANTILLONS 0) initial_state) = Some (Plan_dft_1d ECHANTILLONS)"
    by (simp add: init_def)
  show ?thesis
    unfolding bin_mixCallback[OF wf_init p FREQUENCES_le(2)] samples_after_full_block
    by (simp add: spec_bin_const_0)
qed

lemma draw_spectrum_eighth:
  "snd (draw (snd (mixCallback ECHANTILLONS (replicate ECHANTILLONS (1/8))
                (init (replicate ECHANTILLONS 0) initial_state))) ! 0) = wH"
proof -
  let ?s = "snd (mixCallback ECHANTILLONS (replicate ECHANTILLONS (1/8))
                (init (replicate ECHANTILLONS 0) initial_state))"
  have w: "waveform ?s = 0"
    by (simp add: waveform_mixCallback init_def initial_state_def)
  have "snd (draw ?s ! 0) = clamp_y0 (sint (hauteurs ?s ! 0))"
    unfolding draw_def using w FREQUENCES_le(2) by (simp add: nth_map_upt)
  also have "\<dots> = clamp_y0 wH"
    unfolding eighth_bin by (simp add: wH_def)
  finally show ?thesis by (simp add: clamp_y0_wH)
qed

text \<open>
  Claim C5 (the code departs from it). The claim says every plotted row is at most
  \<open>height - 1 = 511\<close>. The test \<^verbatim>\<open>if(y0 > _wH) y0 = _wH - 1\<close> lets \<open>y0 = _wH\<close>
  through. In waveform mode a sample of \<open>+1.0\<close> gives
  \<open>y0 = (1.0 * 512 + 512) / 2 = 512\<close>; in spectrum mode a bin of 512 (a window of 4096
  samples of value \<open>1/8\<close>) gives \<open>y0 = 512\<close>. Both are plotted at row 512, the
  window height.
\<close>

theorem draw_plots_row_at_height:
  "snd (draw (keydown GL4DK_RIGHT
         (snd (mixCallback ECHANTILLONS (replicate ECHANTILLONS 1)
                (init (replicate ECHANTILLONS 0) initial_state)))) ! 0) = 512
   \<and> snd (draw (snd (mixCallback ECHANTILLONS (replicate ECHANTILLONS (1/8))
                (init (replicate ECHANTILLONS 0) initial_state))) ! 0) = 512
   \<and> wH = 512"
  by (simp only: draw_waveform_full_scale draw_spectrum_eighth) (simp add: wH_def)

end
